theory Spec2Isabelle
  imports Main
begin

section \<open>Vendor library values and exceptions\<close>

text \<open>
  The Roborock integration calls the vendor library \<^verbatim>\<open>roborock\<close>. A vendor call returns
  a value or raises. \<^verbatim>\<open>RoborockException\<close> stands for that class and its subclasses, the
  ones an \<^verbatim>\<open>except RoborockException\<close> clause catches; \<^verbatim>\<open>OtherException\<close> stands for
  any other subclass of \<^verbatim>\<open>Exception\<close>. Both carry the text of \<^verbatim>\<open>str(ex)\<close>. The vendor
  library does not import the host platform, so it raises none of the platform's errors.
\<close>

datatype vendor_exn = RoborockException string | OtherException string

text \<open>
  What a function of this repository raises: a vendor exception passed on unchanged, the
  platform's \<^verbatim>\<open>UpdateFailed\<close> (with its message), the platform's \<^verbatim>\<open>HomeAssistantError\<close>
  as \<^verbatim>\<open>send\<close> builds it (translation key and the \<^verbatim>\<open>command\<close> placeholder), or one of
  Python's own \<^verbatim>\<open>KeyError\<close> and \<^verbatim>\<open>AssertionError\<close>.
\<close>

datatype exn =
    Vendor vendor_exn
  | UpdateFailed string
  | HomeAssistantError string string
  | KeyError string
  | AssertionError

text \<open>Vendor value objects whose content this repository never looks at.\<close>

datatype clean_summary = CleanSummary string
datatype consumable = Consumable string
datatype cacheable_attribute = CacheableAttribute string

text \<open>\<^verbatim>\<open>Status\<close>: the one field read here is \<^verbatim>\<open>map_status\<close>.\<close>

record roborock_status =
  map_status :: "int option"

text \<open>\<^verbatim>\<open>DeviceProp\<close>: the property snapshot, every field optional.\<close>

record device_prop =
  status :: "roborock_status option"
  clean_summary :: "clean_summary option"
  consumable :: "consumable option"

section \<open>Client objects\<close>

text \<open>
  \<^verbatim>\<open>self.api: RoborockLocalClient | RoborockMqttClient\<close> is a reference to a client object.
  A reference carries the class of its object, which never changes, and the object's
  address. \<^verbatim>\<open>cloud_api: RoborockMqttClient\<close> is the address of a cloud client.
\<close>

type_synonym addr = nat

datatype client_ref = RoborockLocalClient addr | RoborockMqttClient addr

fun isinstance_RoborockLocalClient :: "client_ref \<Rightarrow> bool" where
  "isinstance_RoborockLocalClient (RoborockLocalClient a) = True"
| "isinstance_RoborockLocalClient (RoborockMqttClient a) = False"

text \<open>
  The objects shared with the vendor library: for each client its attribute
  \<^verbatim>\<open>is_available\<close> and its dict \<^verbatim>\<open>cache\<close> (attribute to the address of an
  \<^verbatim>\<open>AttributeCache\<close> object), and whatever else the library keeps (\<open>vendor_state\<close>:
  connections, cached values, the devices themselves).
\<close>

record 'w heap =
  is_available :: "client_ref \<Rightarrow> bool"
  cache :: "client_ref \<Rightarrow> cacheable_attribute \<rightharpoonup> addr"
  vendor_state :: 'w

text \<open>
  The vendor library is a parameter: each method is a function on the heap that returns
  a value or raises, and leaves a heap behind. \<open>truthy\<close> is the truth value Python gives
  a \<^verbatim>\<open>DeviceProp\<close> object in a condition, \<open>prop_update\<close> is \<^verbatim>\<open>DeviceProp.update\<close>
  (the stored snapshot, the new one, the stored snapshot afterwards).
\<close>

record 'w vendor =
  ping :: "client_ref \<Rightarrow> 'w heap \<Rightarrow> (vendor_exn + unit) \<times> 'w heap"
  get_prop :: "client_ref \<Rightarrow> 'w heap \<Rightarrow> (vendor_exn + device_prop option) \<times> 'w heap"
  async_value :: "addr \<Rightarrow> 'w heap \<Rightarrow> (vendor_exn + unit) \<times> 'w heap"
  async_disconnect :: "client_ref \<Rightarrow> 'w heap \<Rightarrow> (vendor_exn + unit) \<times> 'w heap"
  get_multi_maps_list ::
    "client_ref \<Rightarrow> 'w heap \<Rightarrow> (vendor_exn + (string \<times> int) list option option) \<times> 'w heap"
  truthy :: "device_prop \<Rightarrow> bool"
  prop_update :: "device_prop \<Rightarrow> device_prop \<Rightarrow> device_prop"

section \<open>The coordinator\<close>

text \<open>
  \<^verbatim>\<open>RoborockDataUpdateCoordinator\<close>: the fields its methods read or write.
  \<open>props\<close> is \<^verbatim>\<open>roborock_device_info.props\<close>.
\<close>

record 'w coordinator =
  api :: client_ref
  cloud_api :: addr
  props :: device_prop
  needed_cache_keys :: "cacheable_attribute list"
  current_map :: "int option"
  maps :: "string \<rightharpoonup> int"
  heap :: "'w heap"

text \<open>
  \<^verbatim>\<open>__init__\<close>: the api is a new local client (at address \<open>local\<close>), the snapshot is
  \<^verbatim>\<open>DeviceProp()\<close>, nothing else is known yet.
\<close>

definition init :: "addr \<Rightarrow> addr \<Rightarrow> 'w heap \<Rightarrow> 'w coordinator" where
  "init local cloud h =
     \<lparr>api = RoborockLocalClient local, cloud_api = cloud,
      props = \<lparr>status = None, clean_summary = None, consumable = None\<rparr>,
      needed_cache_keys = [], current_map = None, maps = Map.empty, heap = h\<rparr>"

text \<open>\<^verbatim>\<open>verify_api\<close>: ping a local client; on \<^verbatim>\<open>RoborockException\<close> use the cloud client.\<close>

definition verify_api :: "'w vendor \<Rightarrow> 'w coordinator \<Rightarrow> (exn + unit) \<times> 'w coordinator" where
  "verify_api v s =
     (if isinstance_RoborockLocalClient (api s) then
        (case ping v (api s) (heap s) of
           (Inr u, h) \<Rightarrow> (Inr (), s\<lparr>heap := h\<rparr>)
         | (Inl (RoborockException m), h) \<Rightarrow>
             (Inr (), s\<lparr>heap := h, api := RoborockMqttClient (cloud_api s)\<rparr>)
         | (Inl (OtherException m), h) \<Rightarrow> (Inl (Vendor (OtherException m)), s\<lparr>heap := h\<rparr>))
      else (Inr (), s))"

text \<open>\<^verbatim>\<open>release\<close>: disconnect the current client.\<close>

definition release :: "'w vendor \<Rightarrow> 'w coordinator \<Rightarrow> (exn + unit) \<times> 'w coordinator" where
  "release v s =
     (case async_disconnect v (api s) (heap s) of
        (Inr u, h) \<Rightarrow> (Inr (), s\<lparr>heap := h\<rparr>)
      | (Inl e, h) \<Rightarrow> (Inl (Vendor e), s\<lparr>heap := h\<rparr>))"

text \<open>
  \<^verbatim>\<open>self.api.cache[key] for key in self.needed_cache_keys\<close>: the lookups happen while the
  argument list of \<^verbatim>\<open>gather\<close> is built, in order; the first missing key raises
  \<^verbatim>\<open>KeyError\<close> before any coroutine runs.
\<close>

fun cache_lookups ::
  "(cacheable_attribute \<rightharpoonup> addr) \<Rightarrow> cacheable_attribute list \<Rightarrow> exn + addr list" where
  "cache_lookups d [] = Inr []"
| "cache_lookups d (k # ks) =
     (case d k of
        None \<Rightarrow> (case k of CacheableAttribute n \<Rightarrow> Inl (KeyError n))
      | Some a \<Rightarrow> (case cache_lookups d ks of Inl e \<Rightarrow> Inl e | Inr as \<Rightarrow> Inr (a # as)))"

text \<open>
  \<^verbatim>\<open>asyncio.gather\<close> without \<^verbatim>\<open>return_exceptions\<close>: every awaitable is started and none
  is cancelled when another raises; the caller gets the list of results, or an exception
  of one that raised. The awaitables are run here one after the other in argument order
  (the order \<^verbatim>\<open>gather\<close> schedules them in), and the first one that raised, in that
  order, decides the exception.
\<close>

fun gather ::
  "('h \<Rightarrow> (vendor_exn + 'a) \<times> 'h) list \<Rightarrow> 'h \<Rightarrow> (vendor_exn + 'a list) \<times> 'h" where
  "gather [] h = (Inr [], h)"
| "gather (c # cs) h =
     (case c h of (r, h1) \<Rightarrow>
        (case gather cs h1 of (rs, h2) \<Rightarrow>
           (case r of
              Inl e \<Rightarrow> (Inl e, h2)
            | Inr x \<Rightarrow> (case rs of Inl e \<Rightarrow> (Inl e, h2) | Inr xs \<Rightarrow> (Inr (x # xs), h2)))))"

text \<open>\<^verbatim>\<open>_recover\<close>: await \<^verbatim>\<open>async_value()\<close> of the cache of every needed key.\<close>

definition recover :: "'w vendor \<Rightarrow> 'w coordinator \<Rightarrow> (exn + unit) \<times> 'w coordinator" where
  "recover v s =
     (case cache_lookups (cache (heap s) (api s)) (needed_cache_keys s) of
        Inl e \<Rightarrow> (Inl e, s)
      | Inr as \<Rightarrow>
          (case gather (map (async_value v) as) (heap s) of
             (Inl e, h) \<Rightarrow> (Inl (Vendor e), s\<lparr>heap := h\<rparr>)
           | (Inr xs, h) \<Rightarrow> (Inr (), s\<lparr>heap := h\<rparr>)))"

text \<open>
  \<^verbatim>\<open>_update_device_prop\<close>: \<^verbatim>\<open>None\<close> is false in a condition, an object is what
  \<open>truthy\<close> says.
\<close>

definition update_device_prop ::
  "'w vendor \<Rightarrow> 'w coordinator \<Rightarrow> (exn + unit) \<times> 'w coordinator" where
  "update_device_prop v s =
     (case get_prop v (api s) (heap s) of
        (Inl e, h) \<Rightarrow> (Inl (Vendor e), s\<lparr>heap := h\<rparr>)
      | (Inr None, h) \<Rightarrow> (Inr (), s\<lparr>heap := h\<rparr>)
      | (Inr (Some device_prop), h) \<Rightarrow>
          (if truthy v device_prop then
             (if truthy v (props s)
              then (Inr (), s\<lparr>heap := h, props := prop_update v (props s) device_prop\<rparr>)
              else (Inr (), s\<lparr>heap := h, props := device_prop\<rparr>))
           else (Inr (), s\<lparr>heap := h\<rparr>)))"

text \<open>\<^verbatim>\<open>_set_current_map\<close>: Python's \<^verbatim>\<open>//\<close> on integers is \<open>div\<close> on \<open>int\<close> (both floor).\<close>

definition set_current_map :: "'w coordinator \<Rightarrow> 'w coordinator" where
  "set_current_map s =
     (case status (props s) of
        None \<Rightarrow> s
      | Some st \<Rightarrow>
          (case map_status st of
             None \<Rightarrow> s
           | Some m \<Rightarrow> s\<lparr>current_map := Some ((m - 3) div 4)\<rparr>))"

text \<open>
  \<^verbatim>\<open>_async_update_data\<close>. The \<^verbatim>\<open>try\<close> covers the fetch and \<^verbatim>\<open>_set_current_map\<close>; the
  null checks and the recovery come after it.
\<close>

definition async_update_data ::
  "'w vendor \<Rightarrow> 'w coordinator \<Rightarrow> (exn + device_prop) \<times> 'w coordinator" where
  "async_update_data v s =
     (case update_device_prop v s of
        (Inl (Vendor (RoborockException m)), s1) \<Rightarrow> (Inl (UpdateFailed m), s1)
      | (Inl e, s1) \<Rightarrow> (Inl e, s1)
      | (Inr u, s1) \<Rightarrow>
          (let s2 = set_current_map s1 in
           if consumable (props s2) = None \<or> clean_summary (props s2) = None
              \<or> status (props s2) = None
           then (Inl (UpdateFailed ''One of the needed props was None.''), s2)
           else if \<not> is_available (heap s2) (api s2) then
             (case recover v s2 of
                (Inl e, s3) \<Rightarrow> (Inl e, s3)
              | (Inr u, s3) \<Rightarrow>
                  (let s4 = s3\<lparr>heap := (heap s3)
                              \<lparr>is_available := (is_available (heap s3)) (api s3 := True)\<rparr>\<rparr>
                   in (Inr (props s4), s4)))
           else (Inr (props s2), s2)))"

text \<open>\<^verbatim>\<open>get_maps\<close>: store the flag of every map under its name, later entries winning.\<close>

definition get_maps :: "'w vendor \<Rightarrow> 'w coordinator \<Rightarrow> (exn + unit) \<times> 'w coordinator" where
  "get_maps v s =
     (case get_multi_maps_list v (api s) (heap s) of
        (Inl e, h) \<Rightarrow> (Inl (Vendor e), s\<lparr>heap := h\<rparr>)
      | (Inr None, h) \<Rightarrow> (Inr (), s\<lparr>heap := h\<rparr>)
      | (Inr (Some None), h) \<Rightarrow> (Inr (), s\<lparr>heap := h\<rparr>)
      | (Inr (Some (Some map_info)), h) \<Rightarrow>
          (Inr (), s\<lparr>heap := h,
                     maps := fold (\<lambda>(name, mapFlag) m. m(name \<mapsto> mapFlag)) map_info (maps s)\<rparr>))"

text \<open>
  The coordinator's methods as operations, and the state a sequence of calls leaves,
  whether each call returned or raised.
\<close>

datatype op =
  VerifyApi | Release | Recover | UpdateDeviceProp | SetCurrentMap | AsyncUpdateData | GetMaps

fun exec :: "'w vendor \<Rightarrow> op \<Rightarrow> 'w coordinator \<Rightarrow> 'w coordinator" where
  "exec v VerifyApi s = snd (verify_api v s)"
| "exec v Release s = snd (release v s)"
| "exec v Recover s = snd (recover v s)"
| "exec v UpdateDeviceProp s = snd (update_device_prop v s)"
| "exec v SetCurrentMap s = set_current_map s"
| "exec v AsyncUpdateData s = snd (async_update_data v s)"
| "exec v GetMaps s = snd (get_maps v s)"

definition run :: "'w vendor \<Rightarrow> op list \<Rightarrow> 'w coordinator \<Rightarrow> 'w coordinator" where
  "run v ops s = fold (exec v) ops s"


section \<open>Entities\<close>

text \<open>
  A command is a member of the vendor enum \<^verbatim>\<open>RoborockCommand\<close> (given by its name) or
  a plain string; the placeholder is \<^verbatim>\<open>command.name\<close> for the former.
\<close>

datatype command = RoborockCommand string | CommandStr string

fun command_placeholder :: "command \<Rightarrow> string" where
  "command_placeholder (RoborockCommand name) = name"
| "command_placeholder (CommandStr c) = c"

text \<open>
  \<^verbatim>\<open>RoborockEntity.send\<close>. \<open>send_command\<close> is the bound method
  \<^verbatim>\<open>self._api.send_command\<close>, acting on whatever the vendor library and the platform
  keep (\<open>'h\<close>); params (\<open>'p\<close>) and the response dict (\<open>'r\<close>) are not looked into.
\<close>

definition send ::
  "(command \<Rightarrow> 'p \<Rightarrow> 'h \<Rightarrow> (vendor_exn + 'r) \<times> 'h) \<Rightarrow> command \<Rightarrow> 'p \<Rightarrow> 'h \<Rightarrow> (exn + 'r) \<times> 'h" where
  "send send_command command params h =
     (case send_command command params h of
        (Inr response, h1) \<Rightarrow> (Inr response, h1)
      | (Inl (RoborockException m), h1) \<Rightarrow>
          (Inl (HomeAssistantError ''command_failed'' (command_placeholder command)), h1)
      | (Inl (OtherException m), h1) \<Rightarrow> (Inl (Vendor (OtherException m)), h1))"

text \<open>
  \<^verbatim>\<open>RoborockCoordinatedEntity.send\<close>. \<open>async_refresh\<close> is the platform's
  \<^verbatim>\<open>coordinator.async_refresh\<close>, a parameter; like any call it returns or raises.
\<close>

definition coordinated_send ::
  "(command \<Rightarrow> 'p \<Rightarrow> 'h \<Rightarrow> (vendor_exn + 'r) \<times> 'h) \<Rightarrow> ('h \<Rightarrow> (exn + unit) \<times> 'h) \<Rightarrow>
   command \<Rightarrow> 'p \<Rightarrow> 'h \<Rightarrow> (exn + 'r) \<times> 'h" where
  "coordinated_send send_command async_refresh command params h =
     (case send send_command command params h of
        (Inl e, h1) \<Rightarrow> (Inl e, h1)
      | (Inr res, h1) \<Rightarrow>
          (case async_refresh h1 of
             (Inl e, h2) \<Rightarrow> (Inl e, h2)
           | (Inr u, h2) \<Rightarrow> (Inr res, h2)))"

section \<open>Config flow\<close>

datatype user_data = UserData string

text \<open>\<^verbatim>\<open>RoborockClient\<close> as the flow uses it: its \<^verbatim>\<open>base_url\<close>.\<close>

record roborock_client =
  base_url :: string

text \<open>\<^verbatim>\<open>RoborockFlowHandler\<close>: \<^verbatim>\<open>_username\<close>, \<^verbatim>\<open>_errors\<close>, \<^verbatim>\<open>_client\<close>.\<close>

record flow =
  username :: "string option"
  errors :: "string \<rightharpoonup> string"
  client :: "roborock_client option"

record entry_data =
  conf_username :: string
  conf_user_data :: user_data
  conf_base_url :: string

text \<open>
  \<^verbatim>\<open>FlowResult\<close>: a form (step id, the required key of its schema, the errors shown) or
  a created entry (title, data).
\<close>

datatype flow_result =
    ShowForm string string "string \<rightharpoonup> string"
  | CreateEntry string entry_data

text \<open>
  The vendor side of the flow: \<open>code_login\<close> is \<^verbatim>\<open>RoborockClient.code_login\<close> (it
  returns or raises, and leaves the client behind), \<open>user_data_truthy\<close> is the truth
  value of a \<^verbatim>\<open>UserData\<close> object, \<open>conf_entry_code\<close> is the constant
  \<^verbatim>\<open>CONF_ENTRY_CODE\<close> of \<^verbatim>\<open>const.py\<close>.
\<close>

record login_vendor =
  code_login ::
    "roborock_client \<Rightarrow> string \<Rightarrow> (vendor_exn + user_data option) \<times> roborock_client"
  user_data_truthy :: "user_data \<Rightarrow> bool"
  conf_entry_code :: string

definition show_code_form :: "login_vendor \<Rightarrow> flow \<Rightarrow> flow_result" where
  "show_code_form v f = ShowForm ''code'' (conf_entry_code v) (errors f)"

definition create_entry :: "flow \<Rightarrow> string \<Rightarrow> user_data \<Rightarrow> exn + flow_result" where
  "create_entry f name d =
     (case client f of
        None \<Rightarrow> Inl AssertionError
      | Some c \<Rightarrow>
          Inr (CreateEntry name
                 \<lparr>conf_username = name, conf_user_data = d, conf_base_url = base_url c\<rparr>))"

text \<open>
  \<^verbatim>\<open>_code_login\<close>. The \<^verbatim>\<open>assert\<close> is inside the \<^verbatim>\<open>try\<close>, so a missing client ends in
  the \<^verbatim>\<open>except Exception\<close> branch.
\<close>

definition code_login_step :: "login_vendor \<Rightarrow> flow \<Rightarrow> string \<Rightarrow> user_data option \<times> flow" where
  "code_login_step v f code =
     (case client f of
        None \<Rightarrow> (None, f\<lparr>errors := (errors f)(''base'' \<mapsto> ''unknown'')\<rparr>)
      | Some c \<Rightarrow>
          (case code_login v c code of
             (Inr login_data, c1) \<Rightarrow> (login_data, f\<lparr>client := Some c1\<rparr>)
           | (Inl (RoborockException m), c1) \<Rightarrow>
               (None, f\<lparr>client := Some c1, errors := (errors f)(''base'' \<mapsto> ''invalid_code'')\<rparr>)
           | (Inl (OtherException m), c1) \<Rightarrow>
               (None, f\<lparr>client := Some c1, errors := (errors f)(''base'' \<mapsto> ''unknown'')\<rparr>)))"

text \<open>Python's truth value of \<^verbatim>\<open>self._username\<close>: not \<^verbatim>\<open>None\<close> and not empty.\<close>

fun username_truthy :: "string option \<Rightarrow> bool" where
  "username_truthy None = False"
| "username_truthy (Some u) = (u \<noteq> [])"

text \<open>\<^verbatim>\<open>async_step_code\<close>.\<close>

definition async_step_code ::
  "login_vendor \<Rightarrow> flow \<Rightarrow> (string \<rightharpoonup> string) option \<Rightarrow> (exn + flow_result) \<times> flow" where
  "async_step_code v f user_input =
     (let f1 = f\<lparr>errors := Map.empty\<rparr> in
      case user_input of
        None \<Rightarrow> (Inr (show_code_form v f1), f1)
      | Some ui \<Rightarrow>
          (case ui (conf_entry_code v) of
             None \<Rightarrow> (Inl (KeyError (conf_entry_code v)), f1)
           | Some code \<Rightarrow>
               (case code_login_step v f1 code of
                  (None, f2) \<Rightarrow> (Inr (show_code_form v f2), f2)
                | (Some d, f2) \<Rightarrow>
                    (case username f2 of
                       None \<Rightarrow> (Inr (show_code_form v f2), f2)
                     | Some u \<Rightarrow>
                         (if user_data_truthy v d \<and> username_truthy (Some u)
                          then (create_entry f2 u d, f2)
                          else (Inr (show_code_form v f2), f2))))))"

section \<open>Concrete vendors and states\<close>

text \<open>
  Used to run the definitions on concrete inputs. With \<open>idle_vendor\<close> every call
  returns at once and changes nothing, \<^verbatim>\<open>get_prop\<close> returns \<^verbatim>\<open>None\<close>, every object is
  true in a condition, and \<open>prop_update\<close> takes from the new snapshot the fields it has.
  The others differ from it in the answers named.
\<close>

definition idle_vendor :: "'w vendor" where
  "idle_vendor =
     \<lparr>ping = (\<lambda>c h. (Inr (), h)),
      get_prop = (\<lambda>c h. (Inr None, h)),
      async_value = (\<lambda>a h. (Inr (), h)),
      async_disconnect = (\<lambda>c h. (Inr (), h)),
      get_multi_maps_list = (\<lambda>c h. (Inr None, h)),
      truthy = (\<lambda>p. True),
      prop_update = (\<lambda>old new.
        \<lparr>status = (case status new of None \<Rightarrow> status old | Some x \<Rightarrow> Some x),
         clean_summary = (case clean_summary new of None \<Rightarrow> clean_summary old | Some x \<Rightarrow> Some x),
         consumable = (case consumable new of None \<Rightarrow> consumable old | Some x \<Rightarrow> Some x)\<rparr>)\<rparr>"

text \<open>\<^verbatim>\<open>get_prop\<close> returns \<open>r\<close>.\<close>

definition vendor_fetching :: "device_prop option \<Rightarrow> 'w vendor" where
  "vendor_fetching r = idle_vendor\<lparr>get_prop := (\<lambda>c h. (Inr r, h))\<rparr>"

text \<open>\<^verbatim>\<open>ping\<close> and \<^verbatim>\<open>get_prop\<close> raise \<open>e\<close>.\<close>

definition vendor_raising :: "vendor_exn \<Rightarrow> 'w vendor" where
  "vendor_raising e = idle_vendor\<lparr>ping := (\<lambda>c h. (Inl e, h)), get_prop := (\<lambda>c h. (Inl e, h))\<rparr>"


text \<open>\<^verbatim>\<open>get_prop\<close> returns \<open>r\<close>, and \<^verbatim>\<open>async_value\<close> raises \<open>e\<close>.\<close>

definition vendor_cache_raising :: "device_prop option \<Rightarrow> vendor_exn \<Rightarrow> addr list vendor" where
  "vendor_cache_raising r e =
     idle_vendor\<lparr>get_prop := (\<lambda>c h. (Inr r, h)), async_value := (\<lambda>a h. (Inl e, h))\<rparr>"

text \<open>A complete snapshot, with map status 7 (map flag 1), and one with a status only.\<close>

definition full_prop :: device_prop where
  "full_prop =
     \<lparr>status = Some \<lparr>map_status = Some 7\<rparr>,
      clean_summary = Some (CleanSummary ''summary''),
      consumable = Some (Consumable ''filter'')\<rparr>"

definition status_prop :: device_prop where
  "status_prop =
     \<lparr>status = Some \<lparr>map_status = Some 11\<rparr>, clean_summary = None, consumable = None\<rparr>"

text \<open>Every client available, no cache.\<close>

definition idle_heap :: "unit heap" where
  "idle_heap = \<lparr>is_available = (\<lambda>c. True), cache = (\<lambda>c. Map.empty), vendor_state = ()\<rparr>"

text \<open>No client available; every client caches two attributes, at addresses 7 and 8.\<close>

definition down_heap :: "addr list heap" where
  "down_heap =
     \<lparr>is_available = (\<lambda>c. False),
      cache = (\<lambda>c. [CacheableAttribute ''dnd_timer'' \<mapsto> 7,
                    CacheableAttribute ''valley_electricity_timer'' \<mapsto> 8]),
      vendor_state = []\<rparr>"

text \<open>A new coordinator (local client 1, cloud client 2), and one that holds a snapshot.\<close>

definition fresh :: "unit coordinator" where
  "fresh = init 1 2 idle_heap"

definition polled :: "unit coordinator" where
  "polled = (init 1 2 idle_heap)\<lparr>props := full_prop, current_map := Some 1\<rparr>"

text \<open>A coordinator whose client is marked unavailable and whose entities need both caches.\<close>

definition recovering :: "addr list coordinator" where
  "recovering =
     (init 1 2 down_heap)
       \<lparr>needed_cache_keys :=
          [CacheableAttribute ''dnd_timer'', CacheableAttribute ''valley_electricity_timer'']\<rparr>"

text \<open>
  A device that accepts every command and one that times out; both note the command in
  a log, as the refresh does.
\<close>

definition accepting ::
  "command \<Rightarrow> int list \<Rightarrow> string list \<Rightarrow> (vendor_exn + string) \<times> string list" where
  "accepting c p h = (Inr ''ok'', h @ [''command''])"

definition timing_out ::
  "command \<Rightarrow> int list \<Rightarrow> string list \<Rightarrow> (vendor_exn + string) \<times> string list" where
  "timing_out c p h = (Inl (RoborockException ''timeout''), h @ [''command''])"

definition refreshing :: "string list \<Rightarrow> (exn + unit) \<times> string list" where
  "refreshing h = (Inr (), h @ [''refresh''])"

text \<open>
  A login that raises \<open>e\<close>, and one that accepts every code and learns the base url;
  a flow that has asked for the code.
\<close>

definition login_raising :: "vendor_exn \<Rightarrow> login_vendor" where
  "login_raising e =
     \<lparr>code_login = (\<lambda>c code. (Inl e, c)), user_data_truthy = (\<lambda>d. True),
      conf_entry_code = ''code''\<rparr>"

definition login_accepting :: login_vendor where
  "login_accepting =
     \<lparr>code_login = (\<lambda>c code. (Inr (Some (UserData code)), c\<lparr>base_url := ''https://euiot.roborock.com''\<rparr>)),
      user_data_truthy = (\<lambda>d. True), conf_entry_code = ''code''\<rparr>"

definition code_flow :: flow where
  "code_flow =
     \<lparr>username = Some ''user@example.com'', errors = Map.empty,
      client = Some \<lparr>base_url = ''''\<rparr>\<rparr>"

section \<open>What each coordinator method leaves untouched\<close>

lemma props_set_current_map [simp]: "props (set_current_map s) = props s"
  by (simp add: set_current_map_def split: option.splits)

lemma api_set_current_map [simp]: "api (set_current_map s) = api s"
  by (simp add: set_current_map_def split: option.splits)

lemma heap_set_current_map [simp]: "heap (set_current_map s) = heap s"
  by (simp add: set_current_map_def split: option.splits)

lemma recover_frame:
  "props (snd (recover v s)) = props s \<and> current_map (snd (recover v s)) = current_map s
   \<and> api (snd (recover v s)) = api s \<and> cloud_api (snd (recover v s)) = cloud_api s
   \<and> needed_cache_keys (snd (recover v s)) = needed_cache_keys s"
  by (simp add: recover_def split: sum.splits prod.splits)

lemma update_device_prop_frame:
  "current_map (snd (update_device_prop v s)) = current_map s
   \<and> api (snd (update_device_prop v s)) = api s
   \<and> cloud_api (snd (update_device_prop v s)) = cloud_api s
   \<and> needed_cache_keys (snd (update_device_prop v s)) = needed_cache_keys s"
  by (simp add: update_device_prop_def split: sum.splits prod.splits option.splits)

lemma update_device_prop_raises:
  "update_device_prop v s = (Inl e, s1) \<Longrightarrow> \<exists>x. e = Vendor x \<and> fst (get_prop v (api s) (heap s)) = Inl x"
  by (auto simp: update_device_prop_def split: sum.splits prod.splits option.splits if_splits)

lemma async_update_data_UpdateFailed:
  "update_device_prop v s = (Inl (Vendor (RoborockException m)), s1) \<Longrightarrow>
   async_update_data v s = (Inl (UpdateFailed m), s1)"
  by (simp add: async_update_data_def)

lemma async_update_data_other:
  "update_device_prop v s = (Inl (Vendor (OtherException m)), s1) \<Longrightarrow>
   async_update_data v s = (Inl (Vendor (OtherException m)), s1)"
  by (simp add: async_update_data_def)

lemma async_update_data_fetched:
  "update_device_prop v s = (Inr u, s1) \<Longrightarrow>
   async_update_data v s =
     (let s2 = set_current_map s1 in
      if consumable (props s2) = None \<or> clean_summary (props s2) = None
         \<or> status (props s2) = None
      then (Inl (UpdateFailed ''One of the needed props was None.''), s2)
      else if \<not> is_available (heap s2) (api s2) then
        (case recover v s2 of
           (Inl e, s3) \<Rightarrow> (Inl e, s3)
         | (Inr u, s3) \<Rightarrow>
             (let s4 = s3\<lparr>heap := (heap s3)
                         \<lparr>is_available := (is_available (heap s3)) (api s3 := True)\<rparr>\<rparr>
              in (Inr (props s4), s4)))
      else (Inr (props s2), s2))"
  by (simp add: async_update_data_def)

section \<open>The claims\<close>

text \<open>
  C1. When the current api is a \<^verbatim>\<open>RoborockLocalClient\<close>, \<^verbatim>\<open>verify_api\<close> pings it (the
  heap it leaves is the one the ping left); if the ping raises \<^verbatim>\<open>RoborockException\<close>
  the api becomes the cloud api, and if the ping returns, the api is unchanged.
\<close>

theorem verify_api_local:
  assumes "isinstance_RoborockLocalClient (api s)"
  shows "heap (snd (verify_api v s)) = snd (ping v (api s) (heap s))
    \<and> (\<forall>m h. ping v (api s) (heap s) = (Inl (RoborockException m), h) \<longrightarrow>
          verify_api v s = (Inr (), s\<lparr>heap := h, api := RoborockMqttClient (cloud_api s)\<rparr>))
    \<and> (\<forall>h. ping v (api s) (heap s) = (Inr (), h) \<longrightarrow>
          verify_api v s = (Inr (), s\<lparr>heap := h\<rparr>) \<and> api (snd (verify_api v s)) = api s)"
  using assms
  by (auto simp: verify_api_def split: prod.splits sum.splits vendor_exn.splits)

theorem verify_api_local_witness:
  "isinstance_RoborockLocalClient (api fresh)
   \<and> ping (vendor_raising (RoborockException ''timeout'')) (api fresh) (heap fresh)
       = (Inl (RoborockException ''timeout''), idle_heap)
   \<and> api (snd (verify_api (vendor_raising (RoborockException ''timeout'')) fresh))
       = RoborockMqttClient 2
   \<and> ping idle_vendor (api fresh) (heap fresh) = (Inr (), idle_heap)
   \<and> api (snd (verify_api idle_vendor fresh)) = RoborockLocalClient 1"
proof -
  have l: "isinstance_RoborockLocalClient (api fresh)"
    by (simp add: fresh_def init_def)
  have p1: "ping (vendor_raising (RoborockException ''timeout'')) (api fresh) (heap fresh)
      = (Inl (RoborockException ''timeout''), idle_heap)"
    by (simp add: vendor_raising_def idle_vendor_def fresh_def init_def)
  have p2: "ping idle_vendor (api fresh) (heap fresh) = (Inr (), idle_heap)"
    by (simp add: idle_vendor_def fresh_def init_def)
  from verify_api_local [OF l, of "vendor_raising (RoborockException ''timeout'')"] p1
  have "verify_api (vendor_raising (RoborockException ''timeout'')) fresh
      = (Inr (), fresh\<lparr>heap := idle_heap, api := RoborockMqttClient (cloud_api fresh)\<rparr>)"
    by blast
  moreover from verify_api_local [OF l, of idle_vendor] p2
  have "api (snd (verify_api idle_vendor fresh)) = api fresh"
    by blast
  ultimately show ?thesis
    using l p1 p2 by (simp add: fresh_def init_def)
qed

text \<open>
  C10. \<^verbatim>\<open>_update_device_prop\<close> leaves \<^verbatim>\<open>props\<close> as it is when \<^verbatim>\<open>get_prop\<close> returns
  \<^verbatim>\<open>None\<close> (or an object that is false in a condition); it replaces \<^verbatim>\<open>props\<close> by the
  returned value when that value is true and the stored \<^verbatim>\<open>props\<close> is false; and it
  merges with \<^verbatim>\<open>update\<close> when both are true.
\<close>

theorem update_device_prop_props:
  "(\<forall>h. get_prop v (api s) (heap s) = (Inr None, h) \<longrightarrow>
      props (snd (update_device_prop v s)) = props s)
   \<and> (\<forall>d h. get_prop v (api s) (heap s) = (Inr (Some d), h) \<and> \<not> truthy v d \<longrightarrow>
      props (snd (update_device_prop v s)) = props s)
   \<and> (\<forall>d h. get_prop v (api s) (heap s) = (Inr (Some d), h) \<and> truthy v d
        \<and> \<not> truthy v (props s) \<longrightarrow>
      props (snd (update_device_prop v s)) = d)
   \<and> (\<forall>d h. get_prop v (api s) (heap s) = (Inr (Some d), h) \<and> truthy v d
        \<and> truthy v (props s) \<longrightarrow>
      props (snd (update_device_prop v s)) = prop_update v (props s) d)"
  by (simp add: update_device_prop_def)

theorem update_device_prop_props_witness:
  "get_prop idle_vendor (api polled) (heap polled) = (Inr None, idle_heap)
   \<and> props (snd (update_device_prop idle_vendor polled)) = full_prop
   \<and> get_prop ((vendor_fetching (Some full_prop))\<lparr>truthy := (\<lambda>p. status p \<noteq> None)\<rparr>)
        (api fresh) (heap fresh) = (Inr (Some full_prop), idle_heap)
   \<and> props (snd (update_device_prop
        ((vendor_fetching (Some full_prop))\<lparr>truthy := (\<lambda>p. status p \<noteq> None)\<rparr>) fresh)) = full_prop
   \<and> get_prop (vendor_fetching (Some status_prop)) (api polled) (heap polled)
       = (Inr (Some status_prop), idle_heap)
   \<and> props (snd (update_device_prop (vendor_fetching (Some status_prop)) polled))
       = full_prop\<lparr>status := Some \<lparr>map_status = Some 11\<rparr>\<rparr>"
proof -
  let ?v2 = "(vendor_fetching (Some full_prop))\<lparr>truthy := (\<lambda>p. status p \<noteq> None)\<rparr> :: unit vendor"
  let ?v3 = "vendor_fetching (Some status_prop) :: unit vendor"
  have g1: "get_prop idle_vendor (api polled) (heap polled) = (Inr None, idle_heap)"
    by (simp add: idle_vendor_def polled_def init_def)
  have g2: "get_prop ?v2 (api fresh) (heap fresh) = (Inr (Some full_prop), idle_heap)"
    by (simp add: vendor_fetching_def fresh_def init_def)
  have t2: "truthy ?v2 full_prop \<and> \<not> truthy ?v2 (props fresh)"
    by (simp add: full_prop_def fresh_def init_def)
  have g3: "get_prop ?v3 (api polled) (heap polled) = (Inr (Some status_prop), idle_heap)"
    by (simp add: vendor_fetching_def polled_def init_def)
  have t3: "truthy ?v3 status_prop \<and> truthy ?v3 (props polled)"
    by (simp add: vendor_fetching_def idle_vendor_def)
  from update_device_prop_props [of idle_vendor polled] g1
  have r1: "props (snd (update_device_prop idle_vendor polled)) = props polled"
    by blast
  from update_device_prop_props [of ?v2 fresh] g2 t2
  have r2: "props (snd (update_device_prop ?v2 fresh)) = full_prop"
    by blast
  from update_device_prop_props [of ?v3 polled] g3 t3
  have r3: "props (snd (update_device_prop ?v3 polled))
      = prop_update ?v3 (props polled) status_prop"
    by blast
  have e3: "prop_update ?v3 (props polled) status_prop
      = full_prop\<lparr>status := Some \<lparr>map_status = Some 11\<rparr>\<rparr>"
    by (simp add: vendor_fetching_def idle_vendor_def polled_def init_def
        full_prop_def status_prop_def)
  from r1 have r1': "props (snd (update_device_prop idle_vendor polled)) = full_prop"
    by (simp add: polled_def init_def)
  from g1 r1' g2 r2 g3 r3 e3 show ?thesis by simp
qed

lemma async_update_data_props:
  "props (snd (async_update_data v s)) = props (snd (update_device_prop v s))"
proof (cases "update_device_prop v s")
  case (Pair r s1)
  show ?thesis
  proof (cases r)
    case (Inl e)
    with Pair update_device_prop_raises [of v s e s1] obtain x where "e = Vendor x" by auto
    with Pair Inl show ?thesis
      by (cases x) (simp_all add: async_update_data_UpdateFailed async_update_data_other)
  next
    case (Inr u)
    with Pair recover_frame [of v "set_current_map s1"] show ?thesis
      by (auto simp: async_update_data_fetched Let_def split: prod.splits sum.splits)
  qed
qed




text \<open>
  C4. \<^verbatim>\<open>RoborockEntity.send\<close> raises \<^verbatim>\<open>HomeAssistantError\<close> if and only if
  \<^verbatim>\<open>send_command\<close> raises \<^verbatim>\<open>RoborockException\<close>; when \<^verbatim>\<open>send_command\<close> returns,
  \<^verbatim>\<open>send\<close> returns the same response.
\<close>

theorem send_command_failed:
  "((\<exists>k c. fst (send send_command command params h) = Inl (HomeAssistantError k c))
      \<longleftrightarrow> (\<exists>m. fst (send_command command params h) = Inl (RoborockException m)))
   \<and> (\<forall>response h1. send_command command params h = (Inr response, h1) \<longrightarrow>
         send send_command command params h = (Inr response, h1))"
  by (auto simp: send_def split: prod.splits sum.splits vendor_exn.splits)

theorem send_command_failed_witness:
  "fst (timing_out (RoborockCommand ''SET_DND_TIMER'') [1, 1, 0, 0] [])
     = Inl (RoborockException ''timeout'')
   \<and> fst (send timing_out (RoborockCommand ''SET_DND_TIMER'') [1, 1, 0, 0] [])
     = Inl (HomeAssistantError ''command_failed'' ''SET_DND_TIMER'')
   \<and> accepting (CommandStr ''app_start'') [] [] = (Inr ''ok'', [''command''])
   \<and> send accepting (CommandStr ''app_start'') [] [] = (Inr ''ok'', [''command''])"
proof -
  have t: "fst (timing_out (RoborockCommand ''SET_DND_TIMER'') [1, 1, 0, 0] [])
      = Inl (RoborockException ''timeout'')"
    by (simp add: timing_out_def)
  then have "\<exists>m. fst (timing_out (RoborockCommand ''SET_DND_TIMER'') [1, 1, 0, 0] [])
      = Inl (RoborockException m)"
    by (rule exI)
  then have "\<exists>k c. fst (send timing_out (RoborockCommand ''SET_DND_TIMER'') [1, 1, 0, 0] [])
      = Inl (HomeAssistantError k c)"
    by (rule send_command_failed [of timing_out "RoborockCommand ''SET_DND_TIMER''" "[1, 1, 0, 0]" "[]",
          THEN conjunct1, THEN iffD2])
  then have a: "fst (send timing_out (RoborockCommand ''SET_DND_TIMER'') [1, 1, 0, 0] [])
      = Inl (HomeAssistantError ''command_failed'' ''SET_DND_TIMER'')"
    by (simp add: send_def timing_out_def)
  have c: "accepting (CommandStr ''app_start'') [] [] = (Inr ''ok'', [''command''])"
    by (simp add: accepting_def)
  have b: "send accepting (CommandStr ''app_start'') [] [] = (Inr ''ok'', [''command''])"
    by (rule send_command_failed [of accepting "CommandStr ''app_start''" "[]" "[]",
          THEN conjunct2, rule_format, OF c])
  from t a c b show ?thesis by (intro conjI)
qed

text \<open>
  C9. \<^verbatim>\<open>RoborockCoordinatedEntity.send\<close> refreshes the coordinator only after the command
  has returned, on the state the command left, and then returns the command's response
  (an exception of the refresh itself is passed on); when the command raises
  \<^verbatim>\<open>RoborockException\<close>, the \<^verbatim>\<open>HomeAssistantError\<close> is raised on the state the command
  left, whatever the refresh would do: no refresh runs.
\<close>

theorem coordinated_send_refresh:
  "(\<forall>response h1. send_command command params h = (Inr response, h1) \<longrightarrow>
      (\<forall>h2. async_refresh h1 = (Inr (), h2) \<longrightarrow>
         coordinated_send send_command async_refresh command params h = (Inr response, h2))
      \<and> (\<forall>e h2. async_refresh h1 = (Inl e, h2) \<longrightarrow>
         coordinated_send send_command async_refresh command params h = (Inl e, h2)))
   \<and> (\<forall>m h1. send_command command params h = (Inl (RoborockException m), h1) \<longrightarrow>
         coordinated_send send_command async_refresh command params h
           = (Inl (HomeAssistantError ''command_failed'' (command_placeholder command)), h1))"
  by (simp add: coordinated_send_def send_def)

theorem coordinated_send_refresh_witness:
  "accepting (CommandStr ''app_start'') [] [] = (Inr ''ok'', [''command''])
   \<and> refreshing [''command''] = (Inr (), [''command'', ''refresh''])
   \<and> coordinated_send accepting refreshing (CommandStr ''app_start'') [] []
     = (Inr ''ok'', [''command'', ''refresh''])
   \<and> timing_out (CommandStr ''app_start'') [] [] = (Inl (RoborockException ''timeout''), [''command''])
   \<and> coordinated_send timing_out refreshing (CommandStr ''app_start'') [] []
     = (Inl (HomeAssistantError ''command_failed'' ''app_start''), [''command''])"
proof -
  have c1: "accepting (CommandStr ''app_start'') [] [] = (Inr ''ok'', [''command''])"
    by (simp add: accepting_def)
  have r1: "refreshing [''command''] = (Inr (), [''command'', ''refresh''])"
    by (simp add: refreshing_def)
  have a: "coordinated_send accepting refreshing (CommandStr ''app_start'') [] []
      = (Inr ''ok'', [''command'', ''refresh''])"
    by (rule coordinated_send_refresh [of accepting "CommandStr ''app_start''" "[]" "[]" refreshing,
          THEN conjunct1, rule_format, OF c1, THEN conjunct1, rule_format, OF r1])
  have c2: "timing_out (CommandStr ''app_start'') [] []
      = (Inl (RoborockException ''timeout''), [''command''])"
    by (simp add: timing_out_def)
  have "coordinated_send timing_out refreshing (CommandStr ''app_start'') [] []
      = (Inl (HomeAssistantError ''command_failed''
           (command_placeholder (CommandStr ''app_start''))), [''command''])"
    by (rule coordinated_send_refresh [of timing_out "CommandStr ''app_start''" "[]" "[]" refreshing,
          THEN conjunct2, rule_format, OF c2])
  then have b: "coordinated_send timing_out refreshing (CommandStr ''app_start'') [] []
      = (Inl (HomeAssistantError ''command_failed'' ''app_start''), [''command''])"
    by simp
  from c1 r1 a c2 b show ?thesis by (intro conjI)
qed

lemma code_login_step_Some:
  "code_login_step v f code = (Some d, f2) \<Longrightarrow>
   \<exists>c c1. client f = Some c \<and> code_login v c code = (Inr (Some d), c1)"
  by (auto simp: code_login_step_def split: option.splits prod.splits sum.splits vendor_exn.splits)

lemma create_entry_data:
  "create_entry f u d = Inr (CreateEntry t e) \<Longrightarrow> conf_user_data e = d"
  by (auto simp: create_entry_def split: option.splits)

text \<open>
  C7. In the code step, when \<^verbatim>\<open>code_login\<close> raises \<^verbatim>\<open>RoborockException\<close> the flow shows
  the code form with the error \<^verbatim>\<open>invalid_code\<close>; when it raises another exception the
  flow shows the code form with the error \<^verbatim>\<open>unknown\<close>; and an entry is created only
  when \<^verbatim>\<open>code_login\<close> was called and returned user data, which the entry holds.
\<close>

theorem code_step_errors:
  "(\<forall>ui code c m c1.
      user_input = Some ui \<and> ui (conf_entry_code v) = Some code \<and> client f = Some c
      \<and> code_login v c code = (Inl (RoborockException m), c1) \<longrightarrow>
      fst (async_step_code v f user_input)
        = Inr (ShowForm ''code'' (conf_entry_code v) [''base'' \<mapsto> ''invalid_code'']))
   \<and> (\<forall>ui code c m c1.
      user_input = Some ui \<and> ui (conf_entry_code v) = Some code \<and> client f = Some c
      \<and> code_login v c code = (Inl (OtherException m), c1) \<longrightarrow>
      fst (async_step_code v f user_input)
        = Inr (ShowForm ''code'' (conf_entry_code v) [''base'' \<mapsto> ''unknown'']))
   \<and> (\<forall>t e. fst (async_step_code v f user_input) = Inr (CreateEntry t e) \<longrightarrow>
      (\<exists>ui code c c1.
         user_input = Some ui \<and> ui (conf_entry_code v) = Some code \<and> client f = Some c
         \<and> code_login v c code = (Inr (Some (conf_user_data e)), c1)))"
proof (intro conjI allI impI)
  fix ui code c m c1
  assume "user_input = Some ui \<and> ui (conf_entry_code v) = Some code \<and> client f = Some c
      \<and> code_login v c code = (Inl (RoborockException m), c1)"
  then show "fst (async_step_code v f user_input)
        = Inr (ShowForm ''code'' (conf_entry_code v) [''base'' \<mapsto> ''invalid_code''])"
    by (simp add: async_step_code_def code_login_step_def show_code_form_def)
next
  fix ui code c m c1
  assume "user_input = Some ui \<and> ui (conf_entry_code v) = Some code \<and> client f = Some c
      \<and> code_login v c code = (Inl (OtherException m), c1)"
  then show "fst (async_step_code v f user_input)
        = Inr (ShowForm ''code'' (conf_entry_code v) [''base'' \<mapsto> ''unknown''])"
    by (simp add: async_step_code_def code_login_step_def show_code_form_def)
next
  fix t e
  assume a: "fst (async_step_code v f user_input) = Inr (CreateEntry t e)"
  show "\<exists>ui code c c1.
         user_input = Some ui \<and> ui (conf_entry_code v) = Some code \<and> client f = Some c
         \<and> code_login v c code = (Inr (Some (conf_user_data e)), c1)"
  proof (cases user_input)
    case None
    with a show ?thesis by (simp add: async_step_code_def show_code_form_def)
  next
    case (Some ui)
    show ?thesis
    proof (cases "ui (conf_entry_code v)")
      case None
      with a Some show ?thesis by (simp add: async_step_code_def)
    next
      case (Some code)
      note code = this
      obtain r f2 where st: "code_login_step v (f\<lparr>errors := Map.empty\<rparr>) code = (r, f2)"
        by (cases "code_login_step v (f\<lparr>errors := Map.empty\<rparr>) code")
      show ?thesis
      proof (cases r)
        case None
        with a \<open>user_input = Some ui\<close> code st show ?thesis
          by (simp add: async_step_code_def show_code_form_def)
      next
        case (Some d)
        with a \<open>user_input = Some ui\<close> code st
        have "\<exists>u. create_entry f2 u d = Inr (CreateEntry t e)"
          by (auto simp: async_step_code_def show_code_form_def Let_def
              split: option.splits if_splits)
        then have "conf_user_data e = d" by (auto dest: create_entry_data)
        moreover from st Some code_login_step_Some [of v "f\<lparr>errors := Map.empty\<rparr>" code d f2]
        obtain c c1 where "client f = Some c" "code_login v c code = (Inr (Some d), c1)"
          by auto
        ultimately show ?thesis using \<open>user_input = Some ui\<close> code by simp
      qed
    qed
  qed
qed

theorem code_step_errors_witness:
  "code_login (login_raising (RoborockException ''bad code'')) \<lparr>base_url = ''''\<rparr> ''123456''
     = (Inl (RoborockException ''bad code''), \<lparr>base_url = ''''\<rparr>)
   \<and> fst (async_step_code (login_raising (RoborockException ''bad code'')) code_flow
        (Some [''code'' \<mapsto> ''123456'']))
     = Inr (ShowForm ''code'' ''code'' [''base'' \<mapsto> ''invalid_code''])
   \<and> code_login (login_raising (OtherException ''boom'')) \<lparr>base_url = ''''\<rparr> ''123456''
     = (Inl (OtherException ''boom''), \<lparr>base_url = ''''\<rparr>)
   \<and> fst (async_step_code (login_raising (OtherException ''boom'')) code_flow
        (Some [''code'' \<mapsto> ''123456'']))
     = Inr (ShowForm ''code'' ''code'' [''base'' \<mapsto> ''unknown''])
   \<and> fst (async_step_code login_accepting code_flow (Some [''code'' \<mapsto> ''123456'']))
     = Inr (CreateEntry ''user@example.com''
         \<lparr>conf_username = ''user@example.com'', conf_user_data = UserData ''123456'',
          conf_base_url = ''https://euiot.roborock.com''\<rparr>)
   \<and> (\<exists>ui code c c1.
         Some [''code'' \<mapsto> ''123456''] = Some ui \<and> ui (conf_entry_code login_accepting) = Some code
         \<and> client code_flow = Some c
         \<and> code_login login_accepting c code = (Inr (Some (UserData ''123456'')), c1))"
proof -
  let ?ui = "[''code'' \<mapsto> ''123456'']"
  let ?c = "\<lparr>base_url = ''''\<rparr>"
  let ?v1 = "login_raising (RoborockException ''bad code'')"
  let ?v2 = "login_raising (OtherException ''boom'')"
  have l1: "code_login ?v1 ?c ''123456'' = (Inl (RoborockException ''bad code''), ?c)"
    by (simp add: login_raising_def)
  have h1: "Some ?ui = Some ?ui \<and> ?ui (conf_entry_code ?v1) = Some ''123456''
      \<and> client code_flow = Some ?c
      \<and> code_login ?v1 ?c ''123456'' = (Inl (RoborockException ''bad code''), ?c)"
    by (simp add: login_raising_def code_flow_def)
  have a: "fst (async_step_code ?v1 code_flow (Some ?ui))
      = Inr (ShowForm ''code'' (conf_entry_code ?v1) [''base'' \<mapsto> ''invalid_code''])"
    by (rule code_step_errors [of "Some ?ui" ?v1 code_flow, THEN conjunct1, rule_format, OF h1])
  have l2: "code_login ?v2 ?c ''123456'' = (Inl (OtherException ''boom''), ?c)"
    by (simp add: login_raising_def)
  have h2: "Some ?ui = Some ?ui \<and> ?ui (conf_entry_code ?v2) = Some ''123456''
      \<and> client code_flow = Some ?c
      \<and> code_login ?v2 ?c ''123456'' = (Inl (OtherException ''boom''), ?c)"
    by (simp add: login_raising_def code_flow_def)
  have b: "fst (async_step_code ?v2 code_flow (Some ?ui))
      = Inr (ShowForm ''code'' (conf_entry_code ?v2) [''base'' \<mapsto> ''unknown''])"
    by (rule code_step_errors [of "Some ?ui" ?v2 code_flow, THEN conjunct2, THEN conjunct1,
          rule_format, OF h2])
  have c: "fst (async_step_code login_accepting code_flow (Some ?ui))
      = Inr (CreateEntry ''user@example.com''
         \<lparr>conf_username = ''user@example.com'', conf_user_data = UserData ''123456'',
          conf_base_url = ''https://euiot.roborock.com''\<rparr>)"
    by (simp add: async_step_code_def code_login_step_def login_accepting_def code_flow_def
        create_entry_def)
  have d: "\<exists>ui code c c1.
         Some ?ui = Some ui \<and> ui (conf_entry_code login_accepting) = Some code
         \<and> client code_flow = Some c
         \<and> code_login login_accepting c code
           = (Inr (Some (conf_user_data \<lparr>conf_username = ''user@example.com'',
                conf_user_data = UserData ''123456'',
                conf_base_url = ''https://euiot.roborock.com''\<rparr>)), c1)"
    by (rule code_step_errors [of "Some ?ui" login_accepting code_flow, THEN conjunct2,
          THEN conjunct2, rule_format, OF c])
  have cc: "conf_entry_code ?v1 = ''code''" "conf_entry_code ?v2 = ''code''"
    by (simp_all add: login_raising_def)
  from l1 a l2 b c d cc show ?thesis by simp
qed

lemma async_update_data_api:
  "api (snd (async_update_data v s)) = api s \<and> cloud_api (snd (async_update_data v s)) = cloud_api s"
proof (cases "update_device_prop v s")
  case (Pair r s1)
  have fr: "api s1 = api s \<and> cloud_api s1 = cloud_api s"
    using update_device_prop_frame [of v s] Pair by simp
  have cs: "cloud_api (set_current_map s1) = cloud_api s1"
    by (simp add: set_current_map_def split: option.splits)
  show ?thesis
  proof (cases r)
    case (Inl e)
    with Pair update_device_prop_raises [of v s e s1] obtain x where "e = Vendor x" by auto
    with Pair Inl fr show ?thesis
      by (cases x) (simp_all add: async_update_data_UpdateFailed async_update_data_other)
  next
    case (Inr u)
    with Pair fr cs recover_frame [of v "set_current_map s1"] show ?thesis
      by (auto simp: async_update_data_fetched Let_def split: prod.splits sum.splits)
  qed
qed

lemma exec_api_cloud:
  "\<not> isinstance_RoborockLocalClient (api s) \<Longrightarrow>
   api (exec v x s) = api s \<and> cloud_api (exec v x s) = cloud_api s"
proof (cases x)
  case VerifyApi
  assume "\<not> isinstance_RoborockLocalClient (api s)"
  with VerifyApi show ?thesis by (simp add: verify_api_def)
next
  case Release
  then show ?thesis by (simp add: release_def split: prod.splits sum.splits)
next
  case Recover
  then show ?thesis using recover_frame [of v s] by simp
next
  case UpdateDeviceProp
  then show ?thesis using update_device_prop_frame [of v s] by simp
next
  case SetCurrentMap
  then show ?thesis by (simp add: set_current_map_def split: option.splits)
next
  case AsyncUpdateData
  then show ?thesis using async_update_data_api [of v s] by simp
next
  case GetMaps
  then show ?thesis by (simp add: get_maps_def split: prod.splits sum.splits option.splits)
qed

lemma run_api_cloud:
  "\<not> isinstance_RoborockLocalClient (api s) \<Longrightarrow>
   api (run v ops s) = api s \<and> cloud_api (run v ops s) = cloud_api s"
proof (induction ops arbitrary: s)
  case Nil
  then show ?case by (simp add: run_def)
next
  case (Cons x ops)
  from Cons.prems exec_api_cloud [of s v x]
  have e: "api (exec v x s) = api s \<and> cloud_api (exec v x s) = cloud_api s" by simp
  with Cons.prems have "\<not> isinstance_RoborockLocalClient (api (exec v x s))" by simp
  from Cons.IH [OF this] e show ?case by (simp add: run_def)
qed

text \<open>
  C3. Once \<^verbatim>\<open>verify_api\<close> has switched the api from the local client to the cloud client,
  the api is the cloud client after every further sequence of coordinator operations, and
  so never a local client again. More generally no operation changes an api that is not
  a local client.
\<close>

theorem api_never_back_to_local:
  "(isinstance_RoborockLocalClient (api s)
      \<and> ping v (api s) (heap s) = (Inl (RoborockException m), h) \<longrightarrow>
      api (snd (verify_api v s)) = RoborockMqttClient (cloud_api s)
      \<and> api (run v ops (snd (verify_api v s))) = RoborockMqttClient (cloud_api s)
      \<and> \<not> isinstance_RoborockLocalClient (api (run v ops (snd (verify_api v s)))))
   \<and> (\<not> isinstance_RoborockLocalClient (api s) \<longrightarrow> api (run v ops s) = api s)"
proof (intro conjI impI)
  assume a: "isinstance_RoborockLocalClient (api s)
      \<and> ping v (api s) (heap s) = (Inl (RoborockException m), h)"
  then have sw: "api (snd (verify_api v s)) = RoborockMqttClient (cloud_api s)"
    by (simp add: verify_api_def)
  then have "\<not> isinstance_RoborockLocalClient (api (snd (verify_api v s)))" by simp
  from run_api_cloud [OF this, of v ops] sw
  have r: "api (run v ops (snd (verify_api v s))) = RoborockMqttClient (cloud_api s)" by simp
  from sw show "api (snd (verify_api v s)) = RoborockMqttClient (cloud_api s)" .
  from r show "api (run v ops (snd (verify_api v s))) = RoborockMqttClient (cloud_api s)" .
  from r show "\<not> isinstance_RoborockLocalClient (api (run v ops (snd (verify_api v s))))"
    by simp
next
  assume "\<not> isinstance_RoborockLocalClient (api s)"
  from run_api_cloud [OF this, of v ops] show "api (run v ops s) = api s" by simp
qed

theorem api_never_back_to_local_witness:
  "isinstance_RoborockLocalClient (api fresh)
   \<and> ping (vendor_raising (RoborockException ''timeout'')) (api fresh) (heap fresh)
       = (Inl (RoborockException ''timeout''), idle_heap)
   \<and> api (run (vendor_raising (RoborockException ''timeout''))
        [VerifyApi, AsyncUpdateData, GetMaps, VerifyApi, Release]
        (snd (verify_api (vendor_raising (RoborockException ''timeout'')) fresh)))
       = RoborockMqttClient 2
   \<and> \<not> isinstance_RoborockLocalClient (api (fresh\<lparr>api := RoborockMqttClient 2\<rparr>))
   \<and> api (run idle_vendor [VerifyApi, AsyncUpdateData] (fresh\<lparr>api := RoborockMqttClient 2\<rparr>))
       = RoborockMqttClient 2"
proof -
  let ?v = "vendor_raising (RoborockException ''timeout'') :: unit vendor"
  let ?ops = "[VerifyApi, AsyncUpdateData, GetMaps, VerifyApi, Release]"
  have h: "isinstance_RoborockLocalClient (api fresh)
      \<and> ping ?v (api fresh) (heap fresh) = (Inl (RoborockException ''timeout''), idle_heap)"
    by (simp add: vendor_raising_def idle_vendor_def fresh_def init_def)
  have a: "api (run ?v ?ops (snd (verify_api ?v fresh))) = RoborockMqttClient (cloud_api fresh)"
    by (rule api_never_back_to_local [of fresh ?v "''timeout''" idle_heap ?ops,
          THEN conjunct1, rule_format, OF h, THEN conjunct2, THEN conjunct1])
  have n: "\<not> isinstance_RoborockLocalClient (api (fresh\<lparr>api := RoborockMqttClient 2\<rparr>))"
    by simp
  have b: "api (run idle_vendor [VerifyApi, AsyncUpdateData] (fresh\<lparr>api := RoborockMqttClient 2\<rparr>))
      = api (fresh\<lparr>api := RoborockMqttClient 2\<rparr>)"
    by (rule api_never_back_to_local [of "fresh\<lparr>api := RoborockMqttClient 2\<rparr>" idle_vendor
          "''timeout''" idle_heap "[VerifyApi, AsyncUpdateData]",
          THEN conjunct2, rule_format, OF n])
  have c: "cloud_api fresh = 2" by (simp add: fresh_def init_def)
  from h a n b c show ?thesis by simp
qed



lemma recover_raises:
  "recover v s = (Inl e, s3) \<Longrightarrow> (\<exists>n. e = KeyError n) \<or> (\<exists>x. e = Vendor x)"
proof -
  have k: "\<And>d ks e. cache_lookups d ks = Inl e \<Longrightarrow> \<exists>n. e = KeyError n"
  proof -
    fix d :: "cacheable_attribute \<rightharpoonup> addr" and ks e
    show "cache_lookups d ks = Inl e \<Longrightarrow> \<exists>n. e = KeyError n"
      by (induction ks) (auto split: option.splits sum.splits cacheable_attribute.splits)
  qed
  assume "recover v s = (Inl e, s3)"
  then show ?thesis
    by (auto simp: recover_def split: sum.splits prod.splits dest: k)
qed







lemma update_device_prop_fst:
  "fst (update_device_prop v s) =
     (case fst (get_prop v (api s) (heap s)) of Inl x \<Rightarrow> Inl (Vendor x) | Inr r \<Rightarrow> Inr ())"
  by (simp add: update_device_prop_def split: prod.splits sum.splits option.splits)

lemma async_update_data_cases:
  "(\<exists>m. fst (get_prop v (api s) (heap s)) = Inl (RoborockException m)
       \<and> fst (async_update_data v s) = Inl (UpdateFailed m))
   \<or> (\<exists>m. fst (get_prop v (api s) (heap s)) = Inl (OtherException m)
       \<and> fst (async_update_data v s) = Inl (Vendor (OtherException m)))
   \<or> (\<exists>r. fst (get_prop v (api s) (heap s)) = Inr r
       \<and> fst (async_update_data v s) =
          (let s2 = set_current_map (snd (update_device_prop v s)) in
           if consumable (props s2) = None \<or> clean_summary (props s2) = None
              \<or> status (props s2) = None
           then Inl (UpdateFailed ''One of the needed props was None.'')
           else if \<not> is_available (heap s2) (api s2) then
             (case fst (recover v s2) of Inl e \<Rightarrow> Inl e | Inr u \<Rightarrow> Inr (props s2))
           else Inr (props s2)))"
proof (cases "update_device_prop v s")
  case (Pair r s1)
  show ?thesis
  proof (cases r)
    case (Inl e)
    with Pair update_device_prop_raises [of v s e s1] obtain x
      where x: "e = Vendor x" "fst (get_prop v (api s) (heap s)) = Inl x" by auto
    with Pair Inl show ?thesis
      by (cases x) (simp_all add: async_update_data_UpdateFailed async_update_data_other)
  next
    case (Inr u)
    with Pair update_device_prop_fst [of v s]
    obtain r' where g: "fst (get_prop v (api s) (heap s)) = Inr r'"
      by (cases "fst (get_prop v (api s) (heap s))") auto
    have "fst (async_update_data v s) =
          (let s2 = set_current_map (snd (update_device_prop v s)) in
           if consumable (props s2) = None \<or> clean_summary (props s2) = None
              \<or> status (props s2) = None
           then Inl (UpdateFailed ''One of the needed props was None.'')
           else if \<not> is_available (heap s2) (api s2) then
             (case fst (recover v s2) of Inl e \<Rightarrow> Inl e | Inr u \<Rightarrow> Inr (props s2))
           else Inr (props s2))"
      using Pair Inr recover_frame [of v "set_current_map s1"]
      by (auto simp: async_update_data_fetched Let_def split: prod.splits sum.splits)
    with g show ?thesis by blast
  qed
qed

lemma recover_not_UpdateFailed: "fst (recover v s) \<noteq> Inl (UpdateFailed msg)"
  using recover_raises [of v s "UpdateFailed msg" "snd (recover v s)"]
  by (auto simp: prod_eq_iff)

text \<open>
  C5, as amended. \<^verbatim>\<open>_async_update_data\<close> raises \<^verbatim>\<open>UpdateFailed\<close> exactly when the
  fetch raises \<^verbatim>\<open>RoborockException\<close> or the fetch returns and one of \<^verbatim>\<open>consumable\<close>,
  \<^verbatim>\<open>clean_summary\<close>, \<^verbatim>\<open>status\<close> is then \<^verbatim>\<open>None\<close>. It returns the props when the fetch
  returns, none of the three is \<^verbatim>\<open>None\<close>, and the api is available or the recovery
  returns.
\<close>

theorem update_failed_exactly:
  "((\<exists>msg. fst (async_update_data v s) = Inl (UpdateFailed msg)) \<longleftrightarrow>
      (\<exists>m. fst (get_prop v (api s) (heap s)) = Inl (RoborockException m))
      \<or> ((\<exists>r. fst (get_prop v (api s) (heap s)) = Inr r)
          \<and> (consumable (props (snd (update_device_prop v s))) = None
             \<or> clean_summary (props (snd (update_device_prop v s))) = None
             \<or> status (props (snd (update_device_prop v s))) = None)))
   \<and> ((\<exists>r. fst (get_prop v (api s) (heap s)) = Inr r)
       \<and> consumable (props (snd (update_device_prop v s))) \<noteq> None
       \<and> clean_summary (props (snd (update_device_prop v s))) \<noteq> None
       \<and> status (props (snd (update_device_prop v s))) \<noteq> None
       \<and> (is_available (heap (snd (update_device_prop v s))) (api s)
          \<or> fst (recover v (set_current_map (snd (update_device_prop v s)))) = Inr ())
      \<longrightarrow> fst (async_update_data v s) = Inr (props (snd (update_device_prop v s))))"
proof -
  let ?s1 = "snd (update_device_prop v s)"
  have a: "api ?s1 = api s" using update_device_prop_frame [of v s] by simp
  have n: "\<And>msg. fst (recover v (set_current_map ?s1)) \<noteq> Inl (UpdateFailed msg)"
    by (rule recover_not_UpdateFailed)
  from async_update_data_cases [of v s] show ?thesis
  proof (elim disjE exE conjE)
    fix m
    assume "fst (get_prop v (api s) (heap s)) = Inl (RoborockException m)"
      "fst (async_update_data v s) = Inl (UpdateFailed m)"
    then show ?thesis by simp
  next
    fix m
    assume "fst (get_prop v (api s) (heap s)) = Inl (OtherException m)"
      "fst (async_update_data v s) = Inl (Vendor (OtherException m))"
    then show ?thesis by simp
  next
    fix r
    assume g: "fst (get_prop v (api s) (heap s)) = Inr r"
      and f: "fst (async_update_data v s) =
          (let s2 = set_current_map ?s1 in
           if consumable (props s2) = None \<or> clean_summary (props s2) = None
              \<or> status (props s2) = None
           then Inl (UpdateFailed ''One of the needed props was None.'')
           else if \<not> is_available (heap s2) (api s2) then
             (case fst (recover v s2) of Inl e \<Rightarrow> Inl e | Inr u \<Rightarrow> Inr (props s2))
           else Inr (props s2))"
    show ?thesis
    proof (cases "consumable (props ?s1) = None \<or> clean_summary (props ?s1) = None
        \<or> status (props ?s1) = None")
      case True
      with g f show ?thesis by (auto simp: Let_def)
    next
      case False
      show ?thesis
      proof (cases "is_available (heap ?s1) (api s)")
        case True
        with False g f a show ?thesis by (auto simp: Let_def)
      next
        case na: False
        show ?thesis
        proof (cases "fst (recover v (set_current_map ?s1))")
          case (Inl e)
          with n have "\<And>msg. e \<noteq> UpdateFailed msg" by auto
          with Inl False na g f a show ?thesis by (auto simp: Let_def)
        next
          case (Inr u)
          with False na g f a show ?thesis by (auto simp: Let_def)
        qed
      qed
    qed
  qed
qed

theorem update_failed_exactly_witness:
  "fst (get_prop (vendor_raising (RoborockException ''timeout'')) (api polled) (heap polled))
     = Inl (RoborockException ''timeout'')
   \<and> fst (async_update_data (vendor_raising (RoborockException ''timeout'')) polled)
     = Inl (UpdateFailed ''timeout'')
   \<and> fst (get_prop (vendor_fetching (Some full_prop)) (api fresh) (heap fresh))
     = Inr (Some full_prop)
   \<and> props (snd (update_device_prop (vendor_fetching (Some full_prop)) fresh)) = full_prop
   \<and> is_available (heap (snd (update_device_prop (vendor_fetching (Some full_prop)) fresh)))
       (api fresh)
   \<and> fst (async_update_data (vendor_fetching (Some full_prop)) fresh) = Inr full_prop"
proof -
  let ?v1 = "vendor_raising (RoborockException ''timeout'') :: unit vendor"
  let ?v2 = "vendor_fetching (Some full_prop) :: unit vendor"
  have g1: "fst (get_prop ?v1 (api polled) (heap polled)) = Inl (RoborockException ''timeout'')"
    by (simp add: vendor_raising_def idle_vendor_def)
  then have "(\<exists>m. fst (get_prop ?v1 (api polled) (heap polled)) = Inl (RoborockException m))
      \<or> ((\<exists>r. fst (get_prop ?v1 (api polled) (heap polled)) = Inr r)
          \<and> (consumable (props (snd (update_device_prop ?v1 polled))) = None
             \<or> clean_summary (props (snd (update_device_prop ?v1 polled))) = None
             \<or> status (props (snd (update_device_prop ?v1 polled))) = None))"
    by simp
  then have "\<exists>msg. fst (async_update_data ?v1 polled) = Inl (UpdateFailed msg)"
    by (rule update_failed_exactly [of ?v1 polled, THEN conjunct1, THEN iffD2])
  then have a: "fst (async_update_data ?v1 polled) = Inl (UpdateFailed ''timeout'')"
    using async_update_data_cases [of ?v1 polled] g1 by auto
  have g2: "fst (get_prop ?v2 (api fresh) (heap fresh)) = Inr (Some full_prop)"
    by (simp add: vendor_fetching_def idle_vendor_def)
  have u2: "update_device_prop ?v2 fresh = (Inr (), fresh\<lparr>props := full_prop\<rparr>)"
    by (simp add: update_device_prop_def vendor_fetching_def idle_vendor_def fresh_def init_def
        full_prop_def)
  then have p2: "props (snd (update_device_prop ?v2 fresh)) = full_prop" by simp
  have i2: "is_available (heap (snd (update_device_prop ?v2 fresh))) (api fresh)"
    by (simp add: u2) (simp add: fresh_def init_def idle_heap_def)
  have f: "consumable full_prop \<noteq> None \<and> clean_summary full_prop \<noteq> None
      \<and> status full_prop \<noteq> None"
    by (simp add: full_prop_def)
  from g2 p2 i2 f
  have h: "(\<exists>r. fst (get_prop ?v2 (api fresh) (heap fresh)) = Inr r)
       \<and> consumable (props (snd (update_device_prop ?v2 fresh))) \<noteq> None
       \<and> clean_summary (props (snd (update_device_prop ?v2 fresh))) \<noteq> None
       \<and> status (props (snd (update_device_prop ?v2 fresh))) \<noteq> None
       \<and> (is_available (heap (snd (update_device_prop ?v2 fresh))) (api fresh)
          \<or> fst (recover ?v2 (set_current_map (snd (update_device_prop ?v2 fresh)))) = Inr ())"
    by simp
  have "fst (async_update_data ?v2 fresh) = Inr (props (snd (update_device_prop ?v2 fresh)))"
    by (rule update_failed_exactly [of ?v2 fresh, THEN conjunct2, rule_format, OF h])
  with p2 have b: "fst (async_update_data ?v2 fresh) = Inr full_prop" by simp
  from g1 a g2 p2 i2 b show ?thesis by (intro conjI)
qed

text \<open>
  The claim C5 as stated fails in two ways. When the fetch raises an exception that is
  not a \<^verbatim>\<open>RoborockException\<close>, the update raises that exception. And when the fetch
  returns a complete snapshot, so that neither condition for \<^verbatim>\<open>UpdateFailed\<close> holds,
  the client is marked unavailable and \<^verbatim>\<open>async_value()\<close> raises \<^verbatim>\<open>RoborockException\<close>
  during the recovery, the update raises that exception. In both it neither raises
  \<^verbatim>\<open>UpdateFailed\<close> nor returns the props.
\<close>

theorem update_raises_from_recovery:
  "fst (get_prop (vendor_raising (OtherException ''boom'')) (api polled) (heap polled))
       = Inl (OtherException ''boom'')
   \<and> fst (async_update_data (vendor_raising (OtherException ''boom'')) polled)
       = Inl (Vendor (OtherException ''boom''))
   \<and> fst (get_prop (vendor_cache_raising (Some full_prop) (RoborockException ''timeout''))
       (api recovering) (heap recovering)) = Inr (Some full_prop)
   \<and> consumable (props (snd (update_device_prop
       (vendor_cache_raising (Some full_prop) (RoborockException ''timeout'')) recovering)))
       = Some (Consumable ''filter'')
   \<and> clean_summary (props (snd (update_device_prop
       (vendor_cache_raising (Some full_prop) (RoborockException ''timeout'')) recovering)))
       = Some (CleanSummary ''summary'')
   \<and> status (props (snd (update_device_prop
       (vendor_cache_raising (Some full_prop) (RoborockException ''timeout'')) recovering)))
       = Some \<lparr>map_status = Some 7\<rparr>
   \<and> fst (async_update_data
       (vendor_cache_raising (Some full_prop) (RoborockException ''timeout'')) recovering)
       = Inl (Vendor (RoborockException ''timeout''))"
proof -
  let ?v = "vendor_cache_raising (Some full_prop) (RoborockException ''timeout'')"
  let ?o = "vendor_raising (OtherException ''boom'') :: unit vendor"
  have go: "fst (get_prop ?o (api polled) (heap polled)) = Inl (OtherException ''boom'')"
    by (simp add: vendor_raising_def idle_vendor_def)
  have uo: "update_device_prop ?o polled = (Inl (Vendor (OtherException ''boom'')), polled)"
    by (simp add: update_device_prop_def vendor_raising_def idle_vendor_def)
  have ro: "fst (async_update_data ?o polled) = Inl (Vendor (OtherException ''boom''))"
    by (simp add: async_update_data_other [OF uo])
  have g: "fst (get_prop ?v (api recovering) (heap recovering)) = Inr (Some full_prop)"
    by (simp add: vendor_cache_raising_def idle_vendor_def)
  have u: "update_device_prop ?v recovering = (Inr (), recovering\<lparr>props := full_prop\<rparr>)"
    by (simp add: update_device_prop_def vendor_cache_raising_def idle_vendor_def recovering_def
        init_def full_prop_def)
  have s2: "set_current_map (recovering\<lparr>props := full_prop\<rparr>)
      = recovering\<lparr>props := full_prop, current_map := Some 1\<rparr>"
    by (simp add: set_current_map_def full_prop_def)
  have rc: "recover ?v (recovering\<lparr>props := full_prop, current_map := Some 1\<rparr>)
      = (Inl (Vendor (RoborockException ''timeout'')),
         recovering\<lparr>props := full_prop, current_map := Some 1\<rparr>)"
    by (simp add: recover_def vendor_cache_raising_def recovering_def init_def down_heap_def)
  have na: "\<not> is_available (heap (recovering\<lparr>props := full_prop, current_map := Some 1\<rparr>))
      (api (recovering\<lparr>props := full_prop, current_map := Some 1\<rparr>))"
    by (simp add: recovering_def init_def down_heap_def)
  have f: "consumable full_prop = Some (Consumable ''filter'')"
    "clean_summary full_prop = Some (CleanSummary ''summary'')"
    "status full_prop = Some \<lparr>map_status = Some 7\<rparr>"
    by (simp_all add: full_prop_def)
  have r: "fst (async_update_data ?v recovering) = Inl (Vendor (RoborockException ''timeout''))"
    using na f
    by (simp add: async_update_data_fetched [OF u] s2 Let_def rc)
  from go ro g u f r show ?thesis by simp
qed

text \<open>
  C6, as amended. The props a data update returns are the coordinator's stored props:
  the value \<^verbatim>\<open>get_prop\<close> returned when that value is true in a condition and the stored
  props were not; the stored props merged with it by \<^verbatim>\<open>update\<close> when both are true; and
  the stored props as they were when \<^verbatim>\<open>get_prop\<close> returned \<^verbatim>\<open>None\<close> or a false value.
\<close>

theorem returned_props:
  "fst (async_update_data v s) = Inr p \<longrightarrow>
     p = props (snd (async_update_data v s))
     \<and> (\<exists>r. fst (get_prop v (api s) (heap s)) = Inr r
          \<and> p = (case r of
                   None \<Rightarrow> props s
                 | Some d \<Rightarrow>
                     if truthy v d
                     then (if truthy v (props s) then prop_update v (props s) d else d)
                     else props s))"
proof
  assume a: "fst (async_update_data v s) = Inr p"
  have u: "\<And>r. fst (get_prop v (api s) (heap s)) = Inr r \<Longrightarrow>
      props (snd (update_device_prop v s)) =
        (case r of
           None \<Rightarrow> props s
         | Some d \<Rightarrow>
             if truthy v d
             then (if truthy v (props s) then prop_update v (props s) d else d)
             else props s)"
    by (auto simp: update_device_prop_def split: prod.splits sum.splits option.splits)
  from async_update_data_cases [of v s] a
  obtain r where g: "fst (get_prop v (api s) (heap s)) = Inr r"
    and p: "p = props (snd (update_device_prop v s))"
    by (auto simp: Let_def split: if_splits sum.splits)
  from p have "p = props (snd (async_update_data v s))"
    by (simp add: async_update_data_props)
  with g p u [OF g] show "p = props (snd (async_update_data v s))
     \<and> (\<exists>r. fst (get_prop v (api s) (heap s)) = Inr r
          \<and> p = (case r of
                   None \<Rightarrow> props s
                 | Some d \<Rightarrow>
                     if truthy v d
                     then (if truthy v (props s) then prop_update v (props s) d else d)
                     else props s))"
    by auto
qed

lemma polled_merge:
  "fst (async_update_data (vendor_fetching (Some status_prop)) polled)
     = Inr (full_prop\<lparr>status := Some \<lparr>map_status = Some 11\<rparr>\<rparr>)"
proof -
  let ?v = "vendor_fetching (Some status_prop) :: unit vendor"
  have u: "update_device_prop ?v polled
      = (Inr (), polled\<lparr>props := full_prop\<lparr>status := Some \<lparr>map_status = Some 11\<rparr>\<rparr>\<rparr>)"
    by (simp add: update_device_prop_def vendor_fetching_def idle_vendor_def polled_def init_def
        full_prop_def status_prop_def)
  show ?thesis
    by (simp add: async_update_data_fetched [OF u] Let_def set_current_map_def)
      (simp add: polled_def init_def idle_heap_def full_prop_def)
qed

lemma polled_idle:
  "fst (async_update_data idle_vendor polled) = Inr full_prop"
proof -
  have u: "update_device_prop idle_vendor polled = (Inr (), polled)"
    by (simp add: update_device_prop_def idle_vendor_def)
  show ?thesis
    by (simp add: async_update_data_fetched [OF u] Let_def set_current_map_def)
      (simp add: polled_def init_def idle_heap_def full_prop_def)
qed

theorem returned_props_witness:
  "fst (async_update_data (vendor_fetching (Some status_prop)) polled)
     = Inr (full_prop\<lparr>status := Some \<lparr>map_status = Some 11\<rparr>\<rparr>)
   \<and> full_prop\<lparr>status := Some \<lparr>map_status = Some 11\<rparr>\<rparr>
     = props (snd (async_update_data (vendor_fetching (Some status_prop)) polled))
   \<and> (\<exists>r. fst (get_prop (vendor_fetching (Some status_prop)) (api polled) (heap polled)) = Inr r
        \<and> full_prop\<lparr>status := Some \<lparr>map_status = Some 11\<rparr>\<rparr>
          = (case r of
               None \<Rightarrow> props polled
             | Some d \<Rightarrow>
                 if truthy (vendor_fetching (Some status_prop) :: unit vendor) d
                 then (if truthy (vendor_fetching (Some status_prop) :: unit vendor) (props polled)
                       then prop_update (vendor_fetching (Some status_prop) :: unit vendor)
                              (props polled) d
                       else d)
                 else props polled))"
  by (rule conjI [OF polled_merge
        returned_props [of "vendor_fetching (Some status_prop)" polled
          "full_prop\<lparr>status := Some \<lparr>map_status = Some 11\<rparr>\<rparr>", rule_format,
          OF polled_merge]])

text \<open>
  The claim C6 as stated fails. When \<^verbatim>\<open>get_prop\<close> returns \<^verbatim>\<open>None\<close> and the stored props
  are complete, the update returns the stored props, not what \<^verbatim>\<open>get_prop\<close> returned.
  And when \<^verbatim>\<open>get_prop\<close> returns a snapshot with a status only, with an \<^verbatim>\<open>update\<close> that
  keeps the stored value of the fields the new snapshot lacks, the update returns the
  merged props, which differ from that snapshot.
\<close>

theorem returned_props_differ:
  "fst (get_prop idle_vendor (api polled) (heap polled)) = Inr None
   \<and> fst (async_update_data idle_vendor polled) = Inr full_prop
   \<and> fst (get_prop (vendor_fetching (Some status_prop)) (api polled) (heap polled))
       = Inr (Some status_prop)
   \<and> fst (async_update_data (vendor_fetching (Some status_prop)) polled)
       = Inr (full_prop\<lparr>status := Some \<lparr>map_status = Some 11\<rparr>\<rparr>)
   \<and> full_prop\<lparr>status := Some \<lparr>map_status = Some 11\<rparr>\<rparr> \<noteq> status_prop"
proof -
  have g1: "fst (get_prop idle_vendor (api polled) (heap polled)) = Inr None"
    by (simp add: idle_vendor_def)
  have g2: "fst (get_prop (vendor_fetching (Some status_prop)) (api polled) (heap polled))
      = Inr (Some status_prop)"
    by (simp add: vendor_fetching_def idle_vendor_def)
  have d: "full_prop\<lparr>status := Some \<lparr>map_status = Some 11\<rparr>\<rparr> \<noteq> status_prop"
    by (simp add: full_prop_def status_prop_def)
  from g1 polled_idle g2 polled_merge d show ?thesis by (intro conjI)
qed

end
